theory Spec2Isabelle
  imports Complex_Main "HOL-Library.Sublist"
begin

section \<open>JavaScript values, strings and errors\<close>

text \<open>
  The tool arguments arrive as an untyped JSON value (\<open>args: unknown\<close>). A number is a
  real: the finite doubles, which are all that JSON carries, are among them. An object
  is an association list in key order.
\<close>

datatype jsval =
    JUndefined
  | JNull
  | JBool bool
  | JNum real
  | JStr string
  | JArr "jsval list"
  | JObj "(string \<times> jsval) list"

abbreviation MethodNotFound :: int where "MethodNotFound \<equiv> - 32601"
abbreviation InvalidParams :: int where "InvalidParams \<equiv> - 32602"
abbreviation InternalError :: int where "InternalError \<equiv> - 32603"


text \<open>One issue of a \<open>ZodError\<close>: a path of keys and indices, and a reason.\<close>

datatype pathSeg = Key string | Idx nat

datatype ZodIssue = ZodIssue (issue_path: "pathSeg list") (issue_message: string)

text \<open>
  A value caught by \<open>catch (error: unknown)\<close> is an instance of \<open>Error\<close> or any other
  value. An \<open>Error\<close> instance has a class (what \<open>instanceof\<close> tests), a message and
  possibly further own properties, such as the \<open>response\<close> of a failed HTTP request.
\<close>

datatype errorClass =
    ZodError "ZodIssue list"
  | McpError int
  | OtherError

datatype thrown =
    ThrownError errorClass string "(string \<times> jsval) list"
  | ThrownValue jsval

text \<open>
  Decimal digits of an integer (\<open>String(n)\<close> for an index, a count or a code, all of
  them small enough to print in plain decimal). \<open>digit\<close> is applied below 10 only.
\<close>

definition digit :: "nat \<Rightarrow> char" where
  "digit d = ''0123456789'' ! d"

fun showNat :: "nat \<Rightarrow> string" where
  "showNat n = (if n < 10 then [digit n] else showNat (n div 10) @ [digit (n mod 10)])"

declare showNat.simps [simp del]

definition showInt :: "int \<Rightarrow> string" where
  "showInt i = (if i < 0 then CHR ''-'' # showNat (nat (- i)) else showNat (nat i))"

text \<open>
  \<open>new McpError(code, message)\<close>. The class belongs to the protocol SDK. Its constructor
  passes \<open>`MCP error ${code}: ${message}`\<close> to \<open>Error\<close>, so that is what \<open>error.message\<close>
  reads back; \<open>error.code\<close> is the code.
\<close>

definition mcpMessage :: "int \<Rightarrow> string \<Rightarrow> string" where
  "mcpMessage code message = ''MCP error '' @ showInt code @ '': '' @ message"

definition new_McpError :: "int \<Rightarrow> string \<Rightarrow> thrown" where
  "new_McpError code message = ThrownError (McpError code) (mcpMessage code message) []"

text \<open>The response of a tool call: one text block, and the two failure fields.\<close>

datatype TextBlock = TextBlock (block_type: string) (block_text: string)

record Envelope =
  content :: "TextBlock list"
  isError :: "bool option"
  errorCode :: "int option"

subsection \<open>String helpers\<close>

text \<open>\<open>Array.prototype.join\<close> on strings.\<close>

fun join :: "string \<Rightarrow> string list \<Rightarrow> string" where
  "join sep [] = []"
| "join sep [x] = x"
| "join sep (x # y # ys) = x @ sep @ join sep (y # ys)"

text \<open>\<open>String.prototype.includes\<close> (what the tests' \<open>toContain\<close> checks).\<close>

fun str_includes :: "string \<Rightarrow> string \<Rightarrow> bool" where
  "str_includes [] sub = (sub = [])"
| "str_includes (c # cs) sub = (prefix sub (c # cs) \<or> str_includes cs sub)"

declare str_includes.simps [simp del]

section \<open>The execution pipeline: \<open>utils/toolExecutor.ts\<close>\<close>

fun extractErrorMessage :: "thrown \<Rightarrow> string" where
  "extractErrorMessage (ThrownError cls m props) = m"
| "extractErrorMessage (ThrownValue (JStr s)) = s"
| "extractErrorMessage (ThrownValue v) = ''Unknown error''"

fun pathSegString :: "pathSeg \<Rightarrow> string" where
  "pathSegString (Key k) = k"
| "pathSegString (Idx i) = showNat i"

text \<open>\<open>`${e.path.join('.')}: ${e.message}`\<close>\<close>

definition issueString :: "ZodIssue \<Rightarrow> string" where
  "issueString e = join ''.'' (map pathSegString (issue_path e)) @ '': '' @ issue_message e"

text \<open>The object literal that every branch of the handler returns.\<close>

definition failure :: "int \<Rightarrow> string \<Rightarrow> Envelope" where
  "failure code message = \<lparr> content = [TextBlock ''text'' message],
                            isError = Some True,
                            errorCode = Some code \<rparr>"

text \<open>
  What one call of \<open>executeTool\<close> does: \<open>result\<close> is what the caller gets (\<open>Inl\<close> would be
  an exception leaving the function), \<open>invoked\<close> lists the arguments \<open>toolFn\<close> was called
  with, and \<open>logged\<close> the \<open>console.error\<close> records of the handler.
\<close>

record 'a run =
  result :: "thrown + Envelope"
  invoked :: "'a list"
  logged :: "(string \<times> thrown) list"

text \<open>
  The \<open>try\<close> block. \<open>schema.parse\<close> returns the parsed arguments or throws; the awaited
  \<open>toolFn\<close> settles: it resolves with an envelope or rejects with a thrown value.
\<close>

definition executeTool_try ::
  "'h \<Rightarrow> string \<Rightarrow> jsval \<Rightarrow> (jsval \<Rightarrow> thrown + 'a) \<Rightarrow> ('h \<Rightarrow> 'a \<Rightarrow> thrown + Envelope)
     \<Rightarrow> (thrown + Envelope) \<times> 'a list" where
  "executeTool_try slides toolName args schema toolFn =
     (if args = JUndefined
      then (Inl (new_McpError InvalidParams
              (''Missing arguments for tool \"'' @ toolName @ ''\".'')), [])
      else (case schema args of
              Inl e \<Rightarrow> (Inl e, [])
            | Inr parsedArgs \<Rightarrow> (toolFn slides parsedArgs, [parsedArgs])))"

text \<open>
  The \<open>catch\<close> block, after its \<open>console.error\<close>. The first and the last branch build
  an \<open>McpError\<close> and return its message and its code; the middle branch returns those
  of the error it caught.
\<close>

fun executeTool_catch :: "string \<Rightarrow> thrown \<Rightarrow> thrown + Envelope" where
  "executeTool_catch toolName (ThrownError (ZodError issues) m props) =
     Inr (failure InvalidParams (mcpMessage InvalidParams
       (''Invalid arguments for tool \"'' @ toolName @ ''\": '' @ join ''; '' (map issueString issues))))"
| "executeTool_catch toolName (ThrownError (McpError code) m props) = Inr (failure code m)"
| "executeTool_catch toolName error =
     Inr (failure InternalError (mcpMessage InternalError
       (''Failed to execute tool \"'' @ toolName @ ''\": '' @ extractErrorMessage error)))"

definition executeTool ::
  "'h \<Rightarrow> string \<Rightarrow> jsval \<Rightarrow> (jsval \<Rightarrow> thrown + 'a) \<Rightarrow> ('h \<Rightarrow> 'a \<Rightarrow> thrown + Envelope)
     \<Rightarrow> 'a run" where
  "executeTool slides toolName args schema toolFn =
     (case executeTool_try slides toolName args schema toolFn of
        (Inr env, calls) \<Rightarrow> \<lparr> result = Inr env, invoked = calls, logged = [] \<rparr>
      | (Inl error, calls) \<Rightarrow>
          \<lparr> result = executeTool_catch toolName error,
            invoked = calls,
            logged = [(''Error executing tool \"'' @ toolName @ ''\":'', error)] \<rparr>)"

section \<open>The tool methods of the server class in \<open>index.ts\<close>\<close>

subsection \<open>Property access, truthiness and string conversion\<close>

text \<open>
  \<open>v?.k\<close> for a key that no built-in prototype defines: the property of an object,
  \<open>undefined\<close> on every other value.
\<close>

fun getProp :: "jsval \<Rightarrow> string \<Rightarrow> jsval" where
  "getProp (JObj kvs) k = (case map_of kvs k of Some v \<Rightarrow> v | None \<Rightarrow> JUndefined)"
| "getProp v k = JUndefined"

fun truthy :: "jsval \<Rightarrow> bool" where
  "truthy JUndefined = False"
| "truthy JNull = False"
| "truthy (JBool b) = b"
| "truthy (JNum n) = (n \<noteq> 0)"
| "truthy (JStr s) = (s \<noteq> [])"
| "truthy (JArr xs) = True"
| "truthy (JObj kvs) = True"

text \<open>
  \<open>String(v)\<close> and \<open>`${v}`\<close>, with the default \<open>toString\<close> of objects and arrays. How the
  language prints a number is the parameter \<open>numberString\<close>.
\<close>

fun jsString :: "(real \<Rightarrow> string) \<Rightarrow> jsval \<Rightarrow> string" where
  "jsString numberString JUndefined = ''undefined''"
| "jsString numberString JNull = ''null''"
| "jsString numberString (JBool b) = (if b then ''true'' else ''false'')"
| "jsString numberString (JNum n) = numberString n"
| "jsString numberString (JStr s) = s"
| "jsString numberString (JArr xs) =
     join '','' (map (\<lambda>x. if x = JUndefined \<or> x = JNull then [] else jsString numberString x) xs)"
| "jsString numberString (JObj kvs) = ''[object Object]''"

text \<open>
  \<open>String.prototype.trim\<close>. A \<open>char\<close> is a code unit below 256; the white space and line
  terminators in that range are TAB, LF, VT, FF, CR, SP and NBSP.
\<close>

definition isWhiteSpace :: "char \<Rightarrow> bool" where
  "isWhiteSpace c = ((of_char c :: nat) \<in> set [9, 10, 11, 12, 13, 32, 160])"

definition trim :: "string \<Rightarrow> string" where
  "trim s = rev (dropWhile isWhiteSpace (rev (dropWhile isWhiteSpace s)))"

subsection \<open>The remote client and the inline error handler\<close>

text \<open>
  The fields of \<open>Schema$Presentation\<close> that \<open>summarizePresentation\<close> reads. Each is
  optional (\<open>T | null | undefined\<close>); \<open>None\<close> stands for both absent values, which the code
  does not tell apart.
\<close>

datatype TextRun = TextRun (run_content: "string option")

datatype TextElement = TextElement (textRun: "TextRun option")

datatype TextContent = TextContent (textElements: "TextElement list option")

datatype Shape = Shape (shape_text: "TextContent option")

datatype TableCell = TableCell (cell_text: "TextContent option")

datatype TableRow = TableRow (tableCells: "TableCell list option")

datatype Table = Table (tableRows: "TableRow list option")

datatype PageElement = PageElement (el_shape: "Shape option") (el_table: "Table option")

datatype NotesPage = NotesPage (notes_pageElements: "PageElement list option")

datatype SlideProperties = SlideProperties (notesPage: "NotesPage option")

datatype Page = Page
  (objectId: "string option")
  (pageElements: "PageElement list option")
  (slideProperties: "SlideProperties option")

datatype Presentation = Presentation
  (pres_title: "string option")
  (pres_revisionId: "string option")
  (pres_slides: "Page list option")

text \<open>
  \<open>this.slides\<close>: each operation takes its parameter object and settles with the
  \<open>data\<close> of the response or with the rejection value.
\<close>

record Slides =
  presentations_create :: "jsval \<Rightarrow> thrown + jsval"
  presentations_get :: "jsval \<Rightarrow> thrown + Presentation"
  presentations_batchUpdate :: "jsval \<Rightarrow> thrown + jsval"
  presentations_pages_get :: "jsval \<Rightarrow> thrown + jsval"

text \<open>\<open>typeof error === 'object' && error !== null && 'response' in error\<close>\<close>

fun hasResponse :: "thrown \<Rightarrow> bool" where
  "hasResponse (ThrownError cls m props) = (''response'' \<in> fst ` set props)"
| "hasResponse (ThrownValue (JObj kvs)) = (''response'' \<in> fst ` set kvs)"
| "hasResponse (ThrownValue v) = False"

text \<open>\<open>gError.response?.data?.error?.message\<close>\<close>

fun nestedMessage :: "thrown \<Rightarrow> jsval" where
  "nestedMessage (ThrownError cls m props) =
     getProp (getProp (getProp (getProp (JObj props) ''response'') ''data'') ''error'') ''message''"
| "nestedMessage (ThrownValue v) =
     getProp (getProp (getProp (getProp v ''response'') ''data'') ''error'') ''message''"

text \<open>The \<open>catch\<close> block that each of the five methods repeats: the error it throws.\<close>

definition googleApiError :: "(real \<Rightarrow> string) \<Rightarrow> thrown \<Rightarrow> thrown" where
  "googleApiError numberString error =
     (let errorMessage =
        (if hasResponse error
         then (if truthy (nestedMessage error) then jsString numberString (nestedMessage error)
               else (case error of
                       ThrownError cls m props \<Rightarrow> m
                     | ThrownValue v \<Rightarrow> jsString numberString v))
         else (case error of
                 ThrownError cls m props \<Rightarrow> m
               | ThrownValue v \<Rightarrow> ''Unknown Google API error''))
      in new_McpError InternalError (''Google API Error: '' @ errorMessage))"

text \<open>
  A success response. \<open>stringify\<close> stands for \<open>JSON.stringify(\<cdot>, null, 2)\<close>, a parameter
  of the tool methods: on the remote payload, on the presentation resource
  (\<open>getPresentation\<close>) and on the summary object.
\<close>

definition success :: "string \<Rightarrow> Envelope" where
  "success txt = \<lparr> content = [TextBlock ''text'' txt], isError = None, errorCode = None \<rparr>"





subsection \<open>\<open>summarizePresentation\<close>\<close>

text \<open>
  The \<open>forEach\<close> loops push onto \<open>slideText\<close>; each is a left fold that returns the
  extended list. A run counts when \<open>textElement.textRun && textElement.textRun.content\<close>
  is truthy: the run is there and its content is a non-empty string.
\<close>

definition pushRun :: "string list \<Rightarrow> TextElement \<Rightarrow> string list" where
  "pushRun slideText textElement =
     (case textRun textElement of
        None \<Rightarrow> slideText
      | Some r \<Rightarrow>
          (case run_content r of
             None \<Rightarrow> slideText
           | Some c \<Rightarrow> if c \<noteq> [] then slideText @ [trim c] else slideText))"

definition pushText :: "string list \<Rightarrow> TextContent option \<Rightarrow> string list" where
  "pushText slideText txt =
     (case txt of
        None \<Rightarrow> slideText
      | Some t \<Rightarrow>
          (case textElements t of
             None \<Rightarrow> slideText
           | Some tes \<Rightarrow> foldl pushRun slideText tes))"

definition pushRow :: "string list \<Rightarrow> TableRow \<Rightarrow> string list" where
  "pushRow slideText row =
     (case tableCells row of
        None \<Rightarrow> slideText
      | Some cells \<Rightarrow> foldl (\<lambda>acc cell. pushText acc (cell_text cell)) slideText cells)"

definition pushElement :: "string list \<Rightarrow> PageElement \<Rightarrow> string list" where
  "pushElement slideText element =
     (let afterShape =
            (case el_shape element of
               None \<Rightarrow> slideText
             | Some sh \<Rightarrow> pushText slideText (shape_text sh))
      in (case el_table element of
            None \<Rightarrow> afterShape
          | Some tb \<Rightarrow>
              (case tableRows tb of
                 None \<Rightarrow> afterShape
               | Some rows \<Rightarrow> foldl pushRow afterShape rows)))"

text \<open>\<open>notes += textElement.textRun.content.trim() + ' '\<close>\<close>

definition appendNoteRun :: "string \<Rightarrow> TextElement \<Rightarrow> string" where
  "appendNoteRun notes textElement =
     (case textRun textElement of
        None \<Rightarrow> notes
      | Some r \<Rightarrow>
          (case run_content r of
             None \<Rightarrow> notes
           | Some c \<Rightarrow> if c \<noteq> [] then notes @ trim c @ '' '' else notes))"

definition appendNoteElement :: "string \<Rightarrow> PageElement \<Rightarrow> string" where
  "appendNoteElement notes element =
     (case el_shape element of
        None \<Rightarrow> notes
      | Some sh \<Rightarrow>
          (case shape_text sh of
             None \<Rightarrow> notes
           | Some t \<Rightarrow>
               (case textElements t of
                  None \<Rightarrow> notes
                | Some tes \<Rightarrow> foldl appendNoteRun notes tes)))"

definition slideText_of :: "Page \<Rightarrow> string list" where
  "slideText_of slide =
     (case pageElements slide of
        None \<Rightarrow> []
      | Some els \<Rightarrow> foldl pushElement [] els)"

definition notes_of :: "bool \<Rightarrow> Page \<Rightarrow> string" where
  "notes_of includeNotes slide =
     (if includeNotes
      then (case slideProperties slide of
              None \<Rightarrow> []
            | Some sp \<Rightarrow>
                (case notesPage sp of
                   None \<Rightarrow> []
                 | Some np \<Rightarrow>
                     (case notes_pageElements np of
                        None \<Rightarrow> []
                      | Some els \<Rightarrow> foldl appendNoteElement [] els)))
      else [])"

text \<open>\<open>s || d\<close> on an optional string: \<open>d\<close> when \<open>s\<close> is absent or empty.\<close>

definition orElse :: "string option \<Rightarrow> string \<Rightarrow> string" where
  "orElse s d = (case s of None \<Rightarrow> d | Some x \<Rightarrow> if x \<noteq> [] then x else d)"

text \<open>The callback of \<open>presentation.slides.map\<close>: the object built for one slide.\<close>

definition slideEntry :: "bool \<Rightarrow> Page \<Rightarrow> nat \<Rightarrow> (string \<times> jsval) list" where
  "slideEntry includeNotes slide index =
     (let slideNumber = index + 1;
          slideText = slideText_of slide;
          notes = notes_of includeNotes slide
      in [(''slideNumber'', JNum (real slideNumber)),
          (''slideId'', JStr (orElse (objectId slide) (''slide_'' @ showNat slideNumber))),
          (''content'', JStr (join '' '' (filter (\<lambda>text. length text > 0) slideText)))]
         @ (if includeNotes \<and> notes \<noteq> [] then [(''notes'', JStr (trim notes))] else []))"

text \<open>The summary object of the \<open>try\<close> block, before \<open>JSON.stringify\<close>.\<close>

definition summaryObject :: "bool \<Rightarrow> Presentation \<Rightarrow> jsval" where
  "summaryObject includeNotes presentation =
     (case pres_slides presentation of
        None \<Rightarrow>
          JObj [(''title'', JStr (orElse (pres_title presentation) ''Untitled Presentation'')),
                (''slideCount'', JNum 0),
                (''summary'', JStr ''This presentation contains no slides.'')]
      | Some ss \<Rightarrow>
          if length ss = 0
          then JObj [(''title'', JStr (orElse (pres_title presentation) ''Untitled Presentation'')),
                     (''slideCount'', JNum 0),
                     (''summary'', JStr ''This presentation contains no slides.'')]
          else (let slidesContent =
                      map (\<lambda>(slide, index). JObj (slideEntry includeNotes slide index))
                          (zip ss [0 ..< length ss])
                in JObj [(''title'', JStr (orElse (pres_title presentation) ''Untitled Presentation'')),
                         (''slideCount'', JNum (real (length slidesContent))),
                         (''lastModified'',
                            JStr (case pres_revisionId presentation of
                                    None \<Rightarrow> ''Unknown''
                                  | Some r \<Rightarrow> if r \<noteq> [] then ''Revision '' @ r else ''Unknown'')),
                         (''slides'', JArr slidesContent)]))"

definition summarizePresentation ::
  "(jsval \<Rightarrow> string) \<Rightarrow> (real \<Rightarrow> string) \<Rightarrow> Slides \<Rightarrow> jsval \<Rightarrow> thrown + Envelope" where
  "summarizePresentation stringify numberString slides args =
     (let includeNotes = (getProp args ''include_notes'' = JBool True)
      in (case presentations_get slides
                 (JObj [(''presentationId'', getProp args ''presentationId'')]) of
            Inr presentation \<Rightarrow> Inr (success (stringify (summaryObject includeNotes presentation)))
          | Inl error \<Rightarrow> Inl (googleApiError numberString error)))"

section \<open>The argument schemas: \<open>schemas.ts\<close>\<close>

text \<open>
  The schema forms the repository builds, with the behaviour of Zod 3 under its default
  error map and its default policy for unknown keys (strip): \<open>z.string()\<close> with an
  optional \<open>.min(n, {message})\<close>, \<open>z.number()\<close>, \<open>z.boolean()\<close>, \<open>z.any()\<close>,
  \<open>z.array(t)\<close> with an optional \<open>.min\<close>, \<open>t.optional()\<close> and \<open>z.object({...})\<close>.
\<close>

datatype zodType =
    ZString "(nat \<times> string) option"
  | ZNumber
  | ZBoolean
  | ZAny
  | ZArray zodType "(nat \<times> string) option"
  | ZOptional zodType
  | ZObject "(string \<times> zodType) list"

text \<open>The name Zod gives the type of a received value.\<close>

fun parsedType :: "jsval \<Rightarrow> string" where
  "parsedType JUndefined = ''undefined''"
| "parsedType JNull = ''null''"
| "parsedType (JBool b) = ''boolean''"
| "parsedType (JNum n) = ''number''"
| "parsedType (JStr s) = ''string''"
| "parsedType (JArr xs) = ''array''"
| "parsedType (JObj kvs) = ''object''"

text \<open>The \<open>invalid_type\<close> issue of the default error map.\<close>

definition invalidType :: "string \<Rightarrow> pathSeg list \<Rightarrow> jsval \<Rightarrow> ZodIssue" where
  "invalidType expected path v =
     ZodIssue path (if v = JUndefined then ''Required''
                    else ''Expected '' @ expected @ '', received '' @ parsedType v)"

text \<open>
  Parsing returns the issues found, in the order Zod reports them, and the output value;
  the parse succeeds when there is no issue. An object schema reads each declared key
  from the input, in the order of the shape, and keeps it in the output when the input
  has the key or the parsed value is not \<open>undefined\<close>; it copies no other key.
\<close>

fun zparse :: "zodType \<Rightarrow> pathSeg list \<Rightarrow> jsval \<Rightarrow> ZodIssue list \<times> jsval" where
  "zparse (ZString m) path v =
     (case v of
        JStr s \<Rightarrow>
          (case m of
             None \<Rightarrow> ([], v)
           | Some (n, msg) \<Rightarrow> if length s < n then ([ZodIssue path msg], v) else ([], v))
      | _ \<Rightarrow> ([invalidType ''string'' path v], v))"
| "zparse ZNumber path v =
     (case v of JNum n \<Rightarrow> ([], v) | _ \<Rightarrow> ([invalidType ''number'' path v], v))"
| "zparse ZBoolean path v =
     (case v of JBool b \<Rightarrow> ([], v) | _ \<Rightarrow> ([invalidType ''boolean'' path v], v))"
| "zparse ZAny path v = ([], v)"
| "zparse (ZArray t m) path v =
     (case v of
        JArr xs \<Rightarrow>
          (let small = (case m of
                          None \<Rightarrow> []
                        | Some (n, msg) \<Rightarrow> if length xs < n then [ZodIssue path msg] else []);
               items = map (\<lambda>(i, x). zparse t (path @ [Idx i]) x) (zip [0 ..< length xs] xs)
           in (small @ concat (map fst items), JArr (map snd items)))
      | _ \<Rightarrow> ([invalidType ''array'' path v], v))"
| "zparse (ZOptional t) path v = (if v = JUndefined then ([], JUndefined) else zparse t path v)"
| "zparse (ZObject shape) path v =
     (case v of
        JObj kvs \<Rightarrow>
          (let fields = map (\<lambda>(k, t). (k, zparse t (path @ [Key k]) (getProp v k))) shape
           in (concat (map (\<lambda>(k, r). fst r) fields),
               JObj (map (\<lambda>(k, r). (k, snd r))
                      (filter (\<lambda>(k, r). k \<in> fst ` set kvs \<or> snd r \<noteq> JUndefined) fields))))
      | _ \<Rightarrow> ([invalidType ''object'' path v], v))"

text \<open>
  \<open>schema.parse(args)\<close>: the parsed value, or a thrown \<open>ZodError\<close> with the issues. The
  handler of \<open>executeTool\<close> reads the issues of a \<open>ZodError\<close>, never its message, which
  is left empty here.
\<close>

definition schema_parse :: "zodType \<Rightarrow> jsval \<Rightarrow> thrown + jsval" where
  "schema_parse schema args =
     (case zparse schema [] args of
        ([], out) \<Rightarrow> Inr out
      | (issues, out) \<Rightarrow> Inl (ThrownError (ZodError issues) [] []))"

definition CreatePresentationArgsSchema :: zodType where
  "CreatePresentationArgsSchema =
     ZObject [(''title'', ZString (Some (1, ''\"title\" (string) is required.'')))]"

definition GetPresentationArgsSchema :: zodType where
  "GetPresentationArgsSchema =
     ZObject [(''presentationId'', ZString (Some (1, ''\"presentationId\" (string) is required.''))),
              (''fields'', ZOptional (ZString None))]"

definition BatchUpdatePresentationArgsSchema :: zodType where
  "BatchUpdatePresentationArgsSchema =
     ZObject [(''presentationId'', ZString (Some (1, ''\"presentationId\" (string) is required.''))),
              (''requests'', ZArray ZAny (Some (1, ''\"requests\" (array) is required.''))),
              (''writeControl'', ZOptional ZAny)]"

definition GetPageArgsSchema :: zodType where
  "GetPageArgsSchema =
     ZObject [(''presentationId'', ZString (Some (1, ''\"presentationId\" (string) is required.''))),
              (''pageObjectId'', ZString (Some (1, ''\"pageObjectId\" (string) is required.'')))]"

definition SummarizePresentationArgsSchema :: zodType where
  "SummarizePresentationArgsSchema =
     ZObject [(''presentationId'', ZString (Some (1, ''\"presentationId\" (string) is required.''))),
              (''include_notes'', ZOptional ZBoolean)]"

text \<open>
  The field types that report at most one issue, at the path of the field itself: every
  form but a nested object and an array whose elements are validated.
\<close>

fun leafType :: "zodType \<Rightarrow> bool" where
  "leafType (ZArray t m) = (t = ZAny)"
| "leafType (ZOptional t) = leafType t"
| "leafType (ZObject shape) = False"
| "leafType t = True"

section \<open>The summary as the specification words it\<close>

text \<open>
  The candidate texts of a text body: the content of each text run that has one, in
  order.
\<close>

definition spec_runTexts :: "TextContent option \<Rightarrow> string list" where
  "spec_runTexts txt =
     (case txt of
        None \<Rightarrow> []
      | Some t \<Rightarrow>
          concat (map (\<lambda>te. case textRun te of
                              None \<Rightarrow> []
                            | Some r \<Rightarrow> (case run_content r of None \<Rightarrow> [] | Some c \<Rightarrow> [c]))
                   (case textElements t of None \<Rightarrow> [] | Some tes \<Rightarrow> tes)))"

text \<open>
  The candidate texts of a page element: those of its shape, then those of its table,
  rows first and then cells, in document order.
\<close>

definition spec_elementTexts :: "PageElement \<Rightarrow> string list" where
  "spec_elementTexts element =
     (case el_shape element of None \<Rightarrow> [] | Some sh \<Rightarrow> spec_runTexts (shape_text sh))
     @ concat (map (\<lambda>row. concat (map (\<lambda>cell. spec_runTexts (cell_text cell))
                                    (case tableCells row of None \<Rightarrow> [] | Some cells \<Rightarrow> cells)))
                (case el_table element of
                   None \<Rightarrow> []
                 | Some tb \<Rightarrow> (case tableRows tb of None \<Rightarrow> [] | Some rows \<Rightarrow> rows)))"

text \<open>
  The content of a slide: the trimmed candidate texts, filtered to the non-empty ones,
  joined with a single space.
\<close>

definition spec_content :: "Page \<Rightarrow> string" where
  "spec_content slide =
     join '' '' (filter (\<lambda>t. t \<noteq> [])
       (map trim (concat (map spec_elementTexts
          (case pageElements slide of None \<Rightarrow> [] | Some els \<Rightarrow> els)))))"

section \<open>Properties of the pipeline\<close>

lemma str_includes_iff: "str_includes s sub \<longleftrightarrow> (\<exists>p q. s = p @ sub @ q)"
proof (induction s)
  case Nil
  then show ?case by (auto simp: str_includes.simps)
next
  case (Cons c cs)
  have "(\<exists>p q. c # cs = p @ sub @ q) \<longleftrightarrow> prefix sub (c # cs) \<or> (\<exists>p q. cs = p @ sub @ q)"
  proof
    assume "\<exists>p q. c # cs = p @ sub @ q"
    then obtain p q where pq: "c # cs = p @ sub @ q" by blast
    show "prefix sub (c # cs) \<or> (\<exists>p q. cs = p @ sub @ q)"
    proof (cases p)
      case Nil
      with pq show ?thesis by (auto simp: prefix_def)
    next
      case (Cons a p')
      with pq have "cs = p' @ sub @ q" by simp
      then show ?thesis by blast
    qed
  next
    assume "prefix sub (c # cs) \<or> (\<exists>p q. cs = p @ sub @ q)"
    then show "\<exists>p q. c # cs = p @ sub @ q"
    proof
      assume "prefix sub (c # cs)"
      then obtain q where "c # cs = sub @ q" by (auto simp: prefix_def)
      then have "c # cs = [] @ sub @ q" by simp
      then show ?thesis by blast
    next
      assume "\<exists>p q. cs = p @ sub @ q"
      then obtain p q where "cs = p @ sub @ q" by blast
      then have "c # cs = (c # p) @ sub @ q" by simp
      then show ?thesis by blast
    qed
  qed
  with Cons.IH show ?case by (simp add: str_includes.simps)
qed

lemma str_includes_self [simp]: "str_includes s s"
  using str_includes_iff [of s s] by (metis append_Nil append_Nil2)

lemma str_includes_mid: "str_includes (p @ sub @ q) sub"
  unfolding str_includes_iff by (intro exI) (rule refl)

lemma str_includesI: "s = p @ sub @ q \<Longrightarrow> str_includes s sub"
  unfolding str_includes_iff by (intro exI)

lemma str_includesE: "str_includes s sub \<Longrightarrow> (\<And>p q. s = p @ sub @ q \<Longrightarrow> P) \<Longrightarrow> P"
  unfolding str_includes_iff by (elim exE)

lemma str_includes_trans:
  assumes "str_includes s t" and "str_includes t u"
  shows "str_includes s u"
proof -
  from assms(1) obtain p q where s: "s = p @ t @ q" by (rule str_includesE)
  from assms(2) obtain p' q' where t: "t = p' @ u @ q'" by (rule str_includesE)
  have "s = (p @ p') @ u @ (q' @ q)" unfolding s t by simp
  then show ?thesis by (rule str_includesI)
qed

lemma str_includes_append2: "str_includes t u \<Longrightarrow> str_includes (s @ t) u"
proof -
  assume "str_includes t u"
  then obtain p q where "t = p @ u @ q" by (rule str_includesE)
  then have "s @ t = (s @ p) @ u @ q" by simp
  then show ?thesis by (rule str_includesI)
qed

lemma str_includes_append1: "str_includes s u \<Longrightarrow> str_includes (s @ t) u"
proof -
  assume "str_includes s u"
  then obtain p q where "s = p @ u @ q" by (rule str_includesE)
  then have "s @ t = p @ u @ (q @ t)" by simp
  then show ?thesis by (rule str_includesI)
qed

lemma join_includes: "x \<in> set xs \<Longrightarrow> str_includes (join sep xs) x"
proof (induction sep xs rule: join.induct)
  case (1 sep)
  then show ?case by simp
next
  case (2 sep y)
  then have "x = y" by simp
  then show ?case by simp
next
  case (3 sep a b ys)
  show ?case
  proof (cases "x = a")
    case True
    have "join sep (a # b # ys) = [] @ x @ (sep @ join sep (b # ys))" using True by simp
    then show ?thesis by (rule str_includesI)
  next
    case False
    with "3.prems" have "x \<in> set (b # ys)" by simp
    then have "str_includes (join sep (b # ys)) x" by (rule "3.IH")
    then have "str_includes ((a @ sep) @ join sep (b # ys)) x" by (rule str_includes_append2)
    then show ?thesis by simp
  qed
qed

lemma failure_text: "block_text (hd (content (failure c t))) = t"
  by (simp add: failure_def)

lemma executeTool_catch_returns: "\<exists>env. executeTool_catch toolName error = Inr env"
  by (cases "(toolName, error)" rule: executeTool_catch.cases) simp_all

text \<open>One diagnostic record on every failure path, none on success.\<close>

lemma logged_on_failure_only:
  "logged (executeTool slides toolName args schema toolFn) =
     (case fst (executeTool_try slides toolName args schema toolFn) of
        Inl error \<Rightarrow> [(''Error executing tool \"'' @ toolName @ ''\":'', error)]
      | Inr env \<Rightarrow> [])"
  by (cases "executeTool_try slides toolName args schema toolFn")
     (auto simp: executeTool_def split: sum.splits)

text \<open>The message of an \<open>McpError\<close> built with a code of the enumeration.\<close>

lemma showInt_codes:
  "showInt InvalidParams = ''-32602''"
  "showInt InternalError = ''-32603''"
  "showInt MethodNotFound = ''-32601''"
  by (simp_all add: showInt_def showNat.simps digit_def)

lemma mcpMessage_text:
  "mcpMessage InvalidParams message = ''MCP error -32602: '' @ message"
  "mcpMessage InternalError message = ''MCP error -32603: '' @ message"
  by (simp_all add: mcpMessage_def showInt_codes)

lemma new_McpError_text:
  "new_McpError InvalidParams message
     = ThrownError (McpError InvalidParams) (''MCP error -32602: '' @ message) []"
  "new_McpError InternalError message
     = ThrownError (McpError InternalError) (''MCP error -32603: '' @ message) []"
  by (simp_all add: new_McpError_def mcpMessage_text)

text \<open>
  C1. For every tool name, every raw argument value (\<open>undefined\<close> and malformed values
  included), every schema (whatever it returns or throws) and every tool function
  (whatever it resolves with or rejects with), \<open>executeTool\<close> raises nothing: its result
  is an envelope.
\<close>

theorem C1_never_raises:
  "\<exists>env. result (executeTool slides toolName args schema toolFn) = Inr env"
proof (cases "executeTool_try slides toolName args schema toolFn")
  case (Pair r calls)
  show ?thesis
  proof (cases r)
    case (Inl error)
    with Pair executeTool_catch_returns [of toolName error] show ?thesis
      by (auto simp: executeTool_def)
  next
    case (Inr env)
    with Pair show ?thesis by (simp add: executeTool_def)
  qed
qed


text \<open>
  C3. When the raw arguments are \<open>undefined\<close>, whatever the tool name, the schema and the
  tool function, the result is the failure envelope with code \<open>InvalidParams\<close> whose text
  is \<open>MCP error -32602: Missing arguments for tool "<toolName>".\<close>, which contains
  \<open>Missing arguments for tool "<toolName>".\<close>, and the tool function is not invoked.
\<close>

theorem C3_missing_arguments:
  "result (executeTool slides toolName JUndefined schema toolFn) =
     Inr \<lparr> content = [TextBlock ''text''
               (''MCP error -32602: Missing arguments for tool \"'' @ toolName @ ''\".'')],
           isError = Some True,
           errorCode = Some InvalidParams \<rparr>
   \<and> invoked (executeTool slides toolName JUndefined schema toolFn) = []
   \<and> (\<exists>env. result (executeTool slides toolName JUndefined schema toolFn) = Inr env
         \<and> str_includes (block_text (hd (content env)))
              (''Missing arguments for tool \"'' @ toolName @ ''\".''))"
proof -
  let ?run = "executeTool slides toolName JUndefined schema toolFn"
  let ?msg = "''Missing arguments for tool \"'' @ toolName @ ''\".''"
  have r: "result ?run = Inr (failure InvalidParams (''MCP error -32602: '' @ ?msg))"
    by (simp add: executeTool_def executeTool_try_def new_McpError_text)
  have i: "invoked ?run = []"
    by (simp add: executeTool_def executeTool_try_def)
  have "str_includes (''MCP error -32602: '' @ ?msg) ?msg"
    by (rule str_includes_append2) (rule str_includes_self)
  then have c: "str_includes (block_text (hd (content (failure InvalidParams (''MCP error -32602: '' @ ?msg))))) ?msg"
    by (simp only: failure_text)
  from r c have e: "\<exists>env. result ?run = Inr env \<and> str_includes (block_text (hd (content env))) ?msg"
    by blast
  from r have r': "result ?run = Inr \<lparr> content = [TextBlock ''text''
               (''MCP error -32602: Missing arguments for tool \"'' @ toolName @ ''\".'')],
           isError = Some True, errorCode = Some InvalidParams \<rparr>"
    by (simp add: failure_def)
  from r' i e show ?thesis by (intro conjI)
qed


text \<open>
  C4 (amended). When the raw arguments are present and the schema rejects them with a
  validation error, the result is the failure envelope with code \<open>InvalidParams\<close> whose
  text is \<open>MCP error -32602: Invalid arguments for tool "<toolName>": \<close> followed by one
  \<open><path>: <reason>\<close> entry per issue, joined by \<open>"; "\<close>. The text contains the path of
  every issue, and it contains the message from \<open>Invalid arguments\<close> on. The tool
  function is not invoked.
\<close>

theorem C4_invalid_arguments:
  assumes present: "args \<noteq> JUndefined"
    and invalid: "schema args = Inl (ThrownError (ZodError issues) m props)"
  shows "result (executeTool slides toolName args schema toolFn) =
           Inr \<lparr> content = [TextBlock ''text''
                   (''MCP error -32602: Invalid arguments for tool \"'' @ toolName @ ''\": '' @
                    join ''; '' (map (\<lambda>e. join ''.'' (map pathSegString (issue_path e)) @ '': '' @ issue_message e)
                                  issues))],
                 isError = Some True,
                 errorCode = Some InvalidParams \<rparr>
       \<and> invoked (executeTool slides toolName args schema toolFn) = []
       \<and> (\<forall>e \<in> set issues. \<exists>env. result (executeTool slides toolName args schema toolFn) = Inr env
            \<and> str_includes (block_text (hd (content env)))
                 (join ''.'' (map pathSegString (issue_path e))))
       \<and> (\<exists>env. result (executeTool slides toolName args schema toolFn) = Inr env
            \<and> str_includes (block_text (hd (content env)))
                 (''Invalid arguments for tool \"'' @ toolName @ ''\": '' @
                  join ''; '' (map (\<lambda>e. join ''.'' (map pathSegString (issue_path e)) @ '': '' @ issue_message e)
                                issues)))"
proof -
  let ?f = "\<lambda>e. join ''.'' (map pathSegString (issue_path e)) @ '': '' @ issue_message e"
  let ?body = "''Invalid arguments for tool \"'' @ toolName @ ''\": '' @ join ''; '' (map ?f issues)"
  let ?txt = "''MCP error -32602: '' @ ?body"
  let ?run = "executeTool slides toolName args schema toolFn"
  have eq: "issueString = ?f" by (rule ext) (simp add: issueString_def)
  have r': "result ?run = Inr (failure InvalidParams ?txt)"
    using present invalid
    by (simp add: executeTool_def executeTool_try_def eq mcpMessage_text)
  have r: "result ?run = Inr \<lparr> content = [TextBlock ''text''
                   (''MCP error -32602: Invalid arguments for tool \"'' @ toolName @ ''\": '' @
                    join ''; '' (map ?f issues))], isError = Some True,
                                errorCode = Some InvalidParams \<rparr>"
    unfolding r' by (simp add: failure_def)
  have i: "invoked ?run = []"
    using present invalid by (simp add: executeTool_def executeTool_try_def)
  have paths: "\<forall>e \<in> set issues. \<exists>env. result ?run = Inr env
            \<and> str_includes (block_text (hd (content env))) (join ''.'' (map pathSegString (issue_path e)))"
  proof
    fix e assume e: "e \<in> set issues"
    then have "?f e \<in> set (map ?f issues)" by simp
    then have j: "str_includes (join ''; '' (map ?f issues)) (?f e)" by (rule join_includes)
    have "str_includes (?f e) (join ''.'' (map pathSegString (issue_path e)))"
      by (rule str_includes_append1) (rule str_includes_self)
    with j have "str_includes (join ''; '' (map ?f issues)) (join ''.'' (map pathSegString (issue_path e)))"
      by (rule str_includes_trans)
    then have k: "str_includes ?txt (join ''.'' (map pathSegString (issue_path e)))"
      by (intro str_includes_append2)
    show "\<exists>env. result ?run = Inr env
            \<and> str_includes (block_text (hd (content env))) (join ''.'' (map pathSegString (issue_path e)))"
    proof (intro exI conjI)
      show "result ?run = Inr (failure InvalidParams ?txt)" by (rule r')
      show "str_includes (block_text (hd (content (failure InvalidParams ?txt))))
              (join ''.'' (map pathSegString (issue_path e)))"
        unfolding failure_text by (rule k)
    qed
  qed
  have body: "\<exists>env. result ?run = Inr env \<and> str_includes (block_text (hd (content env))) ?body"
  proof (intro exI conjI)
    show "result ?run = Inr (failure InvalidParams ?txt)" by (rule r')
    show "str_includes (block_text (hd (content (failure InvalidParams ?txt)))) ?body"
      unfolding failure_text by (rule str_includes_append2) (rule str_includes_self)
  qed
  from r i paths body show ?thesis by (intro conjI)
qed


text \<open>The three missing fields of the executor's own test, all listed.\<close>

theorem C4_invalid_arguments_witness:
  "JObj [] \<noteq> JUndefined
   \<and> schema_parse (ZObject [(''field1'', ZString None), (''field2'', ZNumber), (''field3'', ZBoolean)]) (JObj [])
       = Inl (ThrownError (ZodError [ZodIssue [Key ''field1''] ''Required'',
                                     ZodIssue [Key ''field2''] ''Required'',
                                     ZodIssue [Key ''field3''] ''Required'']) [] [])
   \<and> result (executeTool () ''multi_field_tool'' (JObj [])
         (schema_parse (ZObject [(''field1'', ZString None), (''field2'', ZNumber), (''field3'', ZBoolean)]))
         (\<lambda>h a. Inr (success ''unused'')))
       = Inr \<lparr> content = [TextBlock ''text''
                 ''MCP error -32602: Invalid arguments for tool \"multi_field_tool\": field1: Required; field2: Required; field3: Required''],
               isError = Some True,
               errorCode = Some InvalidParams \<rparr>
   \<and> invoked (executeTool () ''multi_field_tool'' (JObj [])
         (schema_parse (ZObject [(''field1'', ZString None), (''field2'', ZNumber), (''field3'', ZBoolean)]))
         (\<lambda>h a. Inr (success ''unused''))) = []"
proof -
  let ?schema = "schema_parse (ZObject [(''field1'', ZString None), (''field2'', ZNumber), (''field3'', ZBoolean)])"
  have p: "JObj [] \<noteq> JUndefined" by simp
  have v: "?schema (JObj []) = Inl (ThrownError (ZodError [ZodIssue [Key ''field1''] ''Required'',
                                     ZodIssue [Key ''field2''] ''Required'',
                                     ZodIssue [Key ''field3''] ''Required'']) [] [])"
    by (simp add: schema_parse_def invalidType_def)
  note c = C4_invalid_arguments [where args = "JObj []" and schema = ?schema
      and issues = "[ZodIssue [Key ''field1''] ''Required'', ZodIssue [Key ''field2''] ''Required'',
                     ZodIssue [Key ''field3''] ''Required'']"
      and m = "[]" and props = "[]" and slides = "()" and toolName = "''multi_field_tool''"
      and toolFn = "\<lambda>h a. Inr (success ''unused'')", OF p v]
  from c have r: "result (executeTool () ''multi_field_tool'' (JObj []) ?schema (\<lambda>h a. Inr (success ''unused'')))
       = Inr \<lparr> content = [TextBlock ''text''
                 ''MCP error -32602: Invalid arguments for tool \"multi_field_tool\": field1: Required; field2: Required; field3: Required''],
               isError = Some True, errorCode = Some InvalidParams \<rparr>"
    by simp
  from c have i: "invoked (executeTool () ''multi_field_tool'' (JObj []) ?schema (\<lambda>h a. Inr (success ''unused''))) = []"
    by (elim conjE)
  from p v r i show ?thesis by (intro conjI)
qed

text \<open>
  The claim has the message begin with \<open>Invalid arguments\<close>. The envelope carries the
  message of the \<open>McpError\<close>, which begins with \<open>MCP error -32602: \<close>.
\<close>

theorem C4_prefixed_text_counterexample:
  "result (executeTool () ''multi_field_tool'' (JObj [])
         (schema_parse (ZObject [(''field1'', ZString None), (''field2'', ZNumber), (''field3'', ZBoolean)]))
         (\<lambda>h a. Inr (success ''unused'')))
     = Inr \<lparr> content = [TextBlock ''text''
               ''MCP error -32602: Invalid arguments for tool \"multi_field_tool\": field1: Required; field2: Required; field3: Required''],
             isError = Some True,
             errorCode = Some InvalidParams \<rparr>
   \<and> result (executeTool () ''multi_field_tool'' (JObj [])
         (schema_parse (ZObject [(''field1'', ZString None), (''field2'', ZNumber), (''field3'', ZBoolean)]))
         (\<lambda>h a. Inr (success ''unused'')))
     \<noteq> Inr \<lparr> content = [TextBlock ''text''
               ''Invalid arguments for tool \"multi_field_tool\": field1: Required; field2: Required; field3: Required''],
             isError = Some True,
             errorCode = Some InvalidParams \<rparr>"
  by (simp add: executeTool_def executeTool_try_def schema_parse_def invalidType_def failure_def
      issueString_def mcpMessage_text)

text \<open>
  C5 (amended). When validation succeeds and the tool function rejects, the result is a
  failure envelope and the tool function was invoked once, with the parsed arguments.
  A thrown \<open>McpError\<close> keeps its code and its message. A thrown \<open>ZodError\<close> is reported
  as a validation error: code \<open>InvalidParams\<close> and the text
  \<open>MCP error -32602: Invalid arguments for tool "<toolName>": <issues>\<close>. Any other
  thrown value gives code \<open>InternalError\<close> and the text
  \<open>MCP error -32603: Failed to execute tool "<toolName>": <detail>\<close>, where the detail is
  the message of an \<open>Error\<close> instance, a string value itself, and \<open>Unknown error\<close>
  otherwise.
\<close>

theorem C5_tool_failure:
  assumes present: "args \<noteq> JUndefined"
    and valid: "schema args = Inr parsedArgs"
    and fails: "toolFn slides parsedArgs = Inl error"
  shows "result (executeTool slides toolName args schema toolFn) =
           Inr (case error of
                  ThrownError (McpError code) m props \<Rightarrow>
                    \<lparr> content = [TextBlock ''text'' m], isError = Some True, errorCode = Some code \<rparr>
                | ThrownError (ZodError issues) m props \<Rightarrow>
                    \<lparr> content = [TextBlock ''text''
                          (''MCP error -32602: Invalid arguments for tool \"'' @ toolName @ ''\": '' @
                           join ''; '' (map issueString issues))],
                      isError = Some True, errorCode = Some InvalidParams \<rparr>
                | ThrownError OtherError m props \<Rightarrow>
                    \<lparr> content = [TextBlock ''text''
                          (''MCP error -32603: Failed to execute tool \"'' @ toolName @ ''\": '' @ m)],
                      isError = Some True, errorCode = Some InternalError \<rparr>
                | ThrownValue (JStr s) \<Rightarrow>
                    \<lparr> content = [TextBlock ''text''
                          (''MCP error -32603: Failed to execute tool \"'' @ toolName @ ''\": '' @ s)],
                      isError = Some True, errorCode = Some InternalError \<rparr>
                | ThrownValue v \<Rightarrow>
                    \<lparr> content = [TextBlock ''text''
                          (''MCP error -32603: Failed to execute tool \"'' @ toolName @ ''\": Unknown error'')],
                      isError = Some True, errorCode = Some InternalError \<rparr>)
         \<and> invoked (executeTool slides toolName args schema toolFn) = [parsedArgs]"
proof -
  have t: "executeTool_try slides toolName args schema toolFn = (Inl error, [parsedArgs])"
    using present valid fails by (simp add: executeTool_try_def)
  show ?thesis
  proof (cases error)
    case (ThrownError cls m props)
    then show ?thesis using t
      by (cases cls) (simp_all add: executeTool_def failure_def mcpMessage_text)
  next
    case (ThrownValue v)
    then show ?thesis using t
      by (cases v) (simp_all add: executeTool_def failure_def mcpMessage_text)
  qed
qed


text \<open>A rejection with the number 404, as in the executor's test.\<close>

theorem C5_tool_failure_witness:
  "JObj [(''testParam'', JStr ''test'')] \<noteq> JUndefined
   \<and> result (executeTool () ''test_tool'' (JObj [(''testParam'', JStr ''test'')])
         (schema_parse (ZObject [(''testParam'', ZString None)]))
         (\<lambda>h a. Inl (ThrownValue (JNum 404))))
       = Inr \<lparr> content = [TextBlock ''text''
                 ''MCP error -32603: Failed to execute tool \"test_tool\": Unknown error''],
               isError = Some True,
               errorCode = Some InternalError \<rparr>"
proof -
  let ?args = "JObj [(''testParam'', JStr ''test'')]"
  let ?schema = "schema_parse (ZObject [(''testParam'', ZString None)])"
  have p: "?args \<noteq> JUndefined" by simp
  have v: "?schema ?args = Inr ?args" by (simp add: schema_parse_def)
  have f: "(\<lambda>h a. Inl (ThrownValue (JNum 404))) () ?args = (Inl (ThrownValue (JNum 404)) :: thrown + Envelope)"
    by simp
  from C5_tool_failure [where args = ?args and schema = ?schema and parsedArgs = ?args
      and toolFn = "\<lambda>h a. Inl (ThrownValue (JNum 404))" and slides = "()"
      and error = "ThrownValue (JNum 404)" and toolName = "''test_tool''", OF p v f] p
  show ?thesis by simp
qed

text \<open>
  The claim as stated fails when the tool function itself throws a \<open>ZodError\<close>, here by
  parsing its arguments with a second schema: the value carries no error code and is
  exception-like, yet the envelope has code \<open>InvalidParams\<close>, not \<open>InternalError\<close>, and
  its text has no \<open>Failed to execute tool "test_tool": \<close>.
\<close>

theorem C5_validation_error_from_tool:
  "result (executeTool () ''test_tool'' (JObj [(''testParam'', JStr ''test'')])
         (schema_parse (ZObject [(''testParam'', ZString None)]))
         (\<lambda>h parsedArgs. case schema_parse (ZObject [(''id'', ZString None)]) parsedArgs of
                            Inl zodError \<Rightarrow> Inl zodError
                          | Inr checked \<Rightarrow> Inr (success ''{}'')))
     = Inr \<lparr> content = [TextBlock ''text''
               ''MCP error -32602: Invalid arguments for tool \"test_tool\": id: Required''],
             isError = Some True,
             errorCode = Some InvalidParams \<rparr>
   \<and> \<not> str_includes ''MCP error -32602: Invalid arguments for tool \"test_tool\": id: Required''
                       ''Failed to execute tool \"test_tool\": ''
   \<and> InvalidParams \<noteq> InternalError"
proof (intro conjI)
  show "\<not> str_includes ''MCP error -32602: Invalid arguments for tool \"test_tool\": id: Required''
                       ''Failed to execute tool \"test_tool\": ''"
    by (simp add: str_includes.simps)
qed (simp_all add: executeTool_def executeTool_try_def schema_parse_def failure_def issueString_def
       invalidType_def mcpMessage_text)







section \<open>Remote failures\<close>






section \<open>The summary\<close>

lemma trim_Nil [simp]: "trim [] = []"
  by (simp add: trim_def)

text \<open>
  C7. With \<open>include_notes\<close> true, the claim has the \<open>notes\<close> key present exactly when the
  trimmed accumulation of the notes runs is non-empty. The code tests the accumulation
  before trimming it. On the slide of the summarize test whose only notes run is three
  spaces, the entry carries a \<open>notes\<close> key with the empty string, where the claim and the
  test have no such key.
\<close>

theorem C7_whitespace_notes:
  "slideEntry True
     (Page (Some ''slide-1'')
        (Some [PageElement (Some (Shape (Some (TextContent (Some [TextElement (Some (TextRun (Some ''Content'')))]))))) None])
        (Some (SlideProperties (Some (NotesPage
           (Some [PageElement (Some (Shape (Some (TextContent (Some [TextElement (Some (TextRun (Some ''   '')))]))))) None]))))))
     0
   = [(''slideNumber'', JNum 1),
      (''slideId'', JStr ''slide-1''),
      (''content'', JStr ''Content''),
      (''notes'', JStr [])]"
  by (simp add: slideEntry_def slideText_of_def notes_of_def pushElement_def pushText_def pushRun_def
      appendNoteElement_def appendNoteRun_def orElse_def trim_def isWhiteSpace_def Let_def)

text \<open>What the code does in general, and the case of \<open>include_notes\<close> false.\<close>

lemma notes_key_present:
  "map_of (slideEntry includeNotes slide index) ''notes'' =
     (if includeNotes \<and> notes_of includeNotes slide \<noteq> []
      then Some (JStr (trim (notes_of includeNotes slide))) else None)"
  by (cases includeNotes) (simp_all add: slideEntry_def Let_def)

lemma notes_key_absent: "map_of (slideEntry False slide index) ''notes'' = None"
  by (simp add: slideEntry_def notes_of_def Let_def)

text \<open>
  C9 (amended). When the fetched presentation has no slides list or an empty one, the
  result is the success envelope whose payload is exactly the object with \<open>title\<close>,
  \<open>slideCount\<close> 0 and \<open>summary\<close>, in this order and with no other key; the title is
  \<open>Untitled Presentation\<close> when the presentation's title is absent or empty.
\<close>

theorem C9_zero_slides:
  assumes fetched: "presentations_get slides (JObj [(''presentationId'', getProp args ''presentationId'')])
                      = Inr presentation"
    and empty: "pres_slides presentation = None \<or> pres_slides presentation = Some []"
  shows "summarizePresentation stringify numberString slides args =
           Inr \<lparr> content = [TextBlock ''text'' (stringify (JObj
                   [(''title'', JStr (case pres_title presentation of
                                        None \<Rightarrow> ''Untitled Presentation''
                                      | Some t \<Rightarrow> if t = [] then ''Untitled Presentation'' else t)),
                    (''slideCount'', JNum 0),
                    (''summary'', JStr ''This presentation contains no slides.'')]))],
                 isError = None,
                 errorCode = None \<rparr>"
  using fetched empty
  by (auto simp: summarizePresentation_def summaryObject_def success_def orElse_def Let_def
      split: option.splits)


theorem C9_zero_slides_witness:
  "summarizePresentation (jsString (\<lambda>n. ''0'')) (\<lambda>n. ''0'')
     \<lparr> presentations_create = (\<lambda>req. Inl (ThrownValue JNull)),
       presentations_get = (\<lambda>req. Inr (Presentation (Some ''Empty Presentation'') None (Some []))),
       presentations_batchUpdate = (\<lambda>req. Inl (ThrownValue JNull)),
       presentations_pages_get = (\<lambda>req. Inl (ThrownValue JNull)) \<rparr>
     (JObj [(''presentationId'', JStr ''empty-presentation'')])
   = Inr \<lparr> content = [TextBlock ''text'' (jsString (\<lambda>n. ''0'') (JObj
             [(''title'', JStr ''Empty Presentation''),
              (''slideCount'', JNum 0),
              (''summary'', JStr ''This presentation contains no slides.'')]))],
           isError = None,
           errorCode = None \<rparr>"
proof -
  let ?p = "Presentation (Some ''Empty Presentation'') None (Some [])"
  let ?slides = "\<lparr> presentations_create = (\<lambda>req. Inl (ThrownValue JNull)),
                   presentations_get = (\<lambda>req. Inr ?p),
                   presentations_batchUpdate = (\<lambda>req. Inl (ThrownValue JNull)),
                   presentations_pages_get = (\<lambda>req. Inl (ThrownValue JNull)) \<rparr>"
  let ?args = "JObj [(''presentationId'', JStr ''empty-presentation'')]"
  have f: "presentations_get ?slides (JObj [(''presentationId'', getProp ?args ''presentationId'')]) = Inr ?p"
    by simp
  have e: "pres_slides ?p = None \<or> pres_slides ?p = Some []" by simp
  from C9_zero_slides [where slides = ?slides and args = ?args and presentation = ?p
      and stringify = "jsString (\<lambda>n. ''0'')" and numberString = "\<lambda>n. ''0''", OF f e]
  show ?thesis by simp
qed

text \<open>
  The claim defaults the title only when it is absent. A title that is present and empty
  is replaced as well (\<open>presentation.title || 'Untitled Presentation'\<close>).
\<close>

theorem C9_empty_title_counterexample:
  "summaryObject False (Presentation (Some []) None (Some []))
     = JObj [(''title'', JStr ''Untitled Presentation''),
             (''slideCount'', JNum 0),
             (''summary'', JStr ''This presentation contains no slides.'')]
   \<and> summaryObject False (Presentation (Some []) None (Some []))
     \<noteq> JObj [(''title'', JStr []),
             (''slideCount'', JNum 0),
             (''summary'', JStr ''This presentation contains no slides.'')]"
  by (simp add: summaryObject_def orElse_def)


text \<open>
  Each \<open>forEach\<close> loop only appends to the list it is given, so the list a slide ends
  with is the concatenation of what each run contributes.
\<close>

lemma foldl_additive:
  assumes "\<And>acc x. f acc x = acc @ f [] x"
  shows "foldl f acc xs = acc @ concat (map (f []) xs)"
proof (induction xs arbitrary: acc)
  case Nil
  then show ?case by simp
next
  case (Cons x xs)
  have "foldl f acc (x # xs) = foldl f (f acc x) xs" by simp
  also have "\<dots> = f acc x @ concat (map (f []) xs)" by (rule Cons.IH)
  also have "\<dots> = (acc @ f [] x) @ concat (map (f []) xs)" using assms [of acc x] by simp
  finally show ?case by simp
qed

lemma pushRun_additive: "pushRun acc te = acc @ pushRun [] te"
  by (simp add: pushRun_def split: option.splits)

lemma pushText_eq: "pushText acc txt = acc @ map trim (filter (\<lambda>c. c \<noteq> []) (spec_runTexts txt))"
proof (cases "txt")
  case None
  then show ?thesis by (simp add: pushText_def spec_runTexts_def)
next
  case (Some t)
  show ?thesis
  proof (cases "textElements t")
    case None
    with Some show ?thesis by (simp add: pushText_def spec_runTexts_def)
  next
    case (Some tes)
    have one: "pushRun [] = (\<lambda>te. map trim (filter (\<lambda>c. c \<noteq> [])
                 (case textRun te of None \<Rightarrow> []
                  | Some r \<Rightarrow> (case run_content r of None \<Rightarrow> [] | Some c \<Rightarrow> [c]))))"
      by (rule ext) (simp add: pushRun_def split: option.splits)
    have "foldl pushRun acc tes = acc @ concat (map (pushRun []) tes)"
      by (rule foldl_additive) (rule pushRun_additive)
    also have "concat (map (pushRun []) tes) =
                 map trim (filter (\<lambda>c. c \<noteq> []) (spec_runTexts txt))"
      using \<open>txt = Some t\<close> Some
      by (simp add: spec_runTexts_def one map_concat filter_concat comp_def)
    finally show ?thesis using \<open>txt = Some t\<close> Some by (simp add: pushText_def)
  qed
qed

lemma pushCell_additive:
  "(\<lambda>acc cell. pushText acc (cell_text cell)) acc cell
     = acc @ (\<lambda>acc cell. pushText acc (cell_text cell)) [] cell"
  by (simp add: pushText_eq)

lemma pushRow_eq:
  "pushRow acc row = acc @ map trim (filter (\<lambda>c. c \<noteq> [])
     (concat (map (\<lambda>cell. spec_runTexts (cell_text cell))
        (case tableCells row of None \<Rightarrow> [] | Some cells \<Rightarrow> cells))))"
proof (cases "tableCells row")
  case None
  then show ?thesis by (simp add: pushRow_def)
next
  case (Some cells)
  have "foldl (\<lambda>acc cell. pushText acc (cell_text cell)) acc cells
          = acc @ concat (map ((\<lambda>acc cell. pushText acc (cell_text cell)) []) cells)"
    by (rule foldl_additive) (simp add: pushText_eq)
  then show ?thesis using Some
    by (simp add: pushRow_def pushText_eq map_concat filter_concat comp_def)
qed

lemma pushElement_eq:
  "pushElement acc element = acc @ map trim (filter (\<lambda>c. c \<noteq> []) (spec_elementTexts element))"
proof -
  let ?sh = "map trim (filter (\<lambda>c. c \<noteq> [])
               (case el_shape element of None \<Rightarrow> [] | Some sh \<Rightarrow> spec_runTexts (shape_text sh)))"
  have a: "(case el_shape element of None \<Rightarrow> acc | Some sh \<Rightarrow> pushText acc (shape_text sh)) = acc @ ?sh"
    by (simp add: pushText_eq split: option.splits)
  have rows: "foldl pushRow b rows = b @ concat (map (pushRow []) rows)" for b rows
    by (rule foldl_additive) (simp add: pushRow_eq)
  have row: "pushRow [] = (\<lambda>row. map trim (filter (\<lambda>c. c \<noteq> [])
     (concat (map (\<lambda>cell. spec_runTexts (cell_text cell))
        (case tableCells row of None \<Rightarrow> [] | Some cells \<Rightarrow> cells)))))"
    by (rule ext) (simp add: pushRow_eq)
  show ?thesis
    unfolding pushElement_def Let_def a
    by (simp add: spec_elementTexts_def rows row map_concat filter_concat comp_def
        split: option.splits)
qed

lemma slideText_of_eq:
  "slideText_of slide = map trim (filter (\<lambda>c. c \<noteq> [])
     (concat (map spec_elementTexts (case pageElements slide of None \<Rightarrow> [] | Some els \<Rightarrow> els))))"
proof (cases "pageElements slide")
  case None
  then show ?thesis by (simp add: slideText_of_def)
next
  case (Some els)
  have "foldl pushElement [] els = [] @ concat (map (pushElement []) els)"
    by (rule foldl_additive) (simp add: pushElement_eq)
  moreover have "pushElement [] = (\<lambda>element. map trim (filter (\<lambda>c. c \<noteq> []) (spec_elementTexts element)))"
    by (rule ext) (simp add: pushElement_eq)
  ultimately show ?thesis using Some
    by (simp add: slideText_of_def map_concat filter_concat comp_def)
qed

lemma filter_trimmed: 
  "filter (\<lambda>t. t \<noteq> []) (map trim (filter (\<lambda>c. c \<noteq> []) xs))
     = filter (\<lambda>t. t \<noteq> []) (map trim xs)"
  by (induction xs) auto

text \<open>The content of one slide entry.\<close>

lemma slideEntry_content:
  "map_of (slideEntry includeNotes slide index) ''content'' = Some (JStr (spec_content slide))"
  by (simp add: slideEntry_def Let_def spec_content_def slideText_of_eq filter_trimmed)

text \<open>
  C8. When the fetched presentation has slides, summarize returns the success envelope
  whose payload has one entry per slide, in order, and for every slide the \<open>content\<close> of
  its entry is the sequence of trimmed text-run strings of its shapes and tables (rows,
  then cells, in document order), filtered to the non-empty ones and joined with a
  single space.
\<close>

theorem C8_slide_content:
  assumes fetched: "presentations_get slides (JObj [(''presentationId'', getProp args ''presentationId'')])
                      = Inr presentation"
    and some: "pres_slides presentation = Some ss"
    and nonempty: "ss \<noteq> []"
  shows "\<exists>entries.
           summarizePresentation stringify numberString slides args =
             Inr \<lparr> content = [TextBlock ''text'' (stringify (JObj
                     [(''title'', JStr (case pres_title presentation of
                                          None \<Rightarrow> ''Untitled Presentation''
                                        | Some t \<Rightarrow> if t = [] then ''Untitled Presentation'' else t)),
                      (''slideCount'', JNum (real (length ss))),
                      (''lastModified'', JStr (case pres_revisionId presentation of
                                                 None \<Rightarrow> ''Unknown''
                                               | Some r \<Rightarrow> if r = [] then ''Unknown'' else ''Revision '' @ r)),
                      (''slides'', JArr (map JObj entries))]))],
                   isError = None,
                   errorCode = None \<rparr>
         \<and> length entries = length ss
         \<and> (\<forall>i < length ss. map_of (entries ! i) ''content'' = Some (JStr (spec_content (ss ! i))))"
proof -
  let ?notes = "getProp args ''include_notes'' = JBool True"
  let ?entries = "map (\<lambda>(slide, index). slideEntry ?notes slide index) (zip ss [0 ..< length ss])"
  have m: "map (\<lambda>(slide, index). JObj (slideEntry ?notes slide index)) (zip ss [0 ..< length ss])
             = map JObj ?entries"
    by (simp add: case_prod_unfold)
  have len: "length ?entries = length ss" by simp
  have each: "\<forall>i < length ss. map_of (?entries ! i) ''content'' = Some (JStr (spec_content (ss ! i)))"
    by (simp add: slideEntry_content)
  have run: "summarizePresentation stringify numberString slides args =
             Inr \<lparr> content = [TextBlock ''text'' (stringify (JObj
                     [(''title'', JStr (case pres_title presentation of
                                          None \<Rightarrow> ''Untitled Presentation''
                                        | Some t \<Rightarrow> if t = [] then ''Untitled Presentation'' else t)),
                      (''slideCount'', JNum (real (length ss))),
                      (''lastModified'', JStr (case pres_revisionId presentation of
                                                 None \<Rightarrow> ''Unknown''
                                               | Some r \<Rightarrow> if r = [] then ''Unknown'' else ''Revision '' @ r)),
                      (''slides'', JArr (map JObj ?entries))]))],
                   isError = None,
                   errorCode = None \<rparr>"
    using fetched some nonempty
    by (simp add: summarizePresentation_def summaryObject_def success_def orElse_def Let_def m
        split: option.splits)
  from run len each show ?thesis by blast
qed

text \<open>
  One slide with the runs \<open>"Real Content"\<close>, \<open>"   "\<close>, \<open>""\<close> and a run without content,
  as in the summarize test.
\<close>

theorem C8_slide_content_witness:
  "\<exists>entries.
     summarizePresentation (jsString (\<lambda>n. ''0'')) (\<lambda>n. ''0'')
       \<lparr> presentations_create = (\<lambda>req. Inl (ThrownValue JNull)),
         presentations_get = (\<lambda>req. Inr (Presentation (Some ''Clean Presentation'') None
           (Some [Page (Some ''slide-1'')
              (Some [PageElement (Some (Shape (Some (TextContent (Some
                 [TextElement (Some (TextRun (Some ''Real Content''))),
                  TextElement (Some (TextRun (Some ''   ''))),
                  TextElement (Some (TextRun (Some []))),
                  TextElement (Some (TextRun None))]))))) None])
              None]))),
         presentations_batchUpdate = (\<lambda>req. Inl (ThrownValue JNull)),
         presentations_pages_get = (\<lambda>req. Inl (ThrownValue JNull)) \<rparr>
       (JObj [(''presentationId'', JStr ''presentation-clean'')])
     = Inr \<lparr> content = [TextBlock ''text'' (jsString (\<lambda>n. ''0'') (JObj
               [(''title'', JStr ''Clean Presentation''),
                (''slideCount'', JNum 1),
                (''lastModified'', JStr ''Unknown''),
                (''slides'', JArr (map JObj entries))]))],
             isError = None,
             errorCode = None \<rparr>
   \<and> length entries = 1
   \<and> map_of (entries ! 0) ''content'' = Some (JStr ''Real Content'')"
proof -
  let ?slide = "Page (Some ''slide-1'')
              (Some [PageElement (Some (Shape (Some (TextContent (Some
                 [TextElement (Some (TextRun (Some ''Real Content''))),
                  TextElement (Some (TextRun (Some ''   ''))),
                  TextElement (Some (TextRun (Some []))),
                  TextElement (Some (TextRun None))]))))) None])
              None"
  let ?p = "Presentation (Some ''Clean Presentation'') None (Some [?slide])"
  let ?slides = "\<lparr> presentations_create = (\<lambda>req. Inl (ThrownValue JNull)),
         presentations_get = (\<lambda>req. Inr ?p),
         presentations_batchUpdate = (\<lambda>req. Inl (ThrownValue JNull)),
         presentations_pages_get = (\<lambda>req. Inl (ThrownValue JNull)) \<rparr>"
  let ?args = "JObj [(''presentationId'', JStr ''presentation-clean'')]"
  have f: "presentations_get ?slides (JObj [(''presentationId'', getProp ?args ''presentationId'')]) = Inr ?p"
    by simp
  have s: "pres_slides ?p = Some [?slide]" by simp
  have n: "[?slide] \<noteq> []" by simp
  have c: "spec_content ?slide = ''Real Content''"
    by (simp add: spec_content_def spec_elementTexts_def spec_runTexts_def trim_def isWhiteSpace_def)
  from C8_slide_content [where slides = ?slides and args = ?args and presentation = ?p
      and ss = "[?slide]" and stringify = "jsString (\<lambda>n. ''0'')" and numberString = "\<lambda>n. ''0''",
      OF f s n]
  obtain entries where
    "summarizePresentation (jsString (\<lambda>n. ''0'')) (\<lambda>n. ''0'') ?slides ?args
       = Inr \<lparr> content = [TextBlock ''text'' (jsString (\<lambda>n. ''0'') (JObj
               [(''title'', JStr ''Clean Presentation''),
                (''slideCount'', JNum 1),
                (''lastModified'', JStr ''Unknown''),
                (''slides'', JArr (map JObj entries))]))],
             isError = None, errorCode = None \<rparr>"
    and "length entries = 1"
    and "map_of (entries ! 0) ''content'' = Some (JStr ''Real Content'')"
    using c by auto
  then show ?thesis by blast
qed

text \<open>The two-by-two table of the summarize test, on the code itself.\<close>

lemma table_example:
  "map_of (slideEntry False
     (Page (Some ''slide-1'')
        (Some [PageElement None (Some (Table (Some
           [TableRow (Some [TableCell (Some (TextContent (Some [TextElement (Some (TextRun (Some ''Cell 1'')))]))),
                            TableCell (Some (TextContent (Some [TextElement (Some (TextRun (Some ''Cell 2'')))])))]),
            TableRow (Some [TableCell (Some (TextContent (Some [TextElement (Some (TextRun (Some ''Cell 3'')))]))),
                            TableCell (Some (TextContent (Some [TextElement (Some (TextRun (Some ''Cell 4'')))])))])])))])
        None) 0) ''content''
   = Some (JStr ''Cell 1 Cell 2 Cell 3 Cell 4'')"
  by (simp add: slideEntry_def slideText_of_def notes_of_def pushElement_def pushRow_def pushText_def
      pushRun_def trim_def isWhiteSpace_def Let_def)

section \<open>Unknown properties\<close>

text \<open>
  An object schema reads the declared keys only: two inputs that agree on them parse
  alike, and the output has no other key.
\<close>

lemma key_in_iff: "k \<in> fst ` set kvs \<longleftrightarrow> map_of kvs k \<noteq> None"
  by (simp add: map_of_eq_None_iff)

lemma zparse_object_extras:
  assumes agree: "\<forall>k \<in> fst ` set shape. map_of extended k = map_of declaredOnly k"
  shows "zparse (ZObject shape) path (JObj extended) = zparse (ZObject shape) path (JObj declaredOnly)"
proof -
  let ?f = "\<lambda>v. (\<lambda>(k, t). (k, zparse t (path @ [Key k]) (getProp v k)))"
  let ?P = "\<lambda>kvs. (\<lambda>(k, r). k \<in> fst ` set kvs \<or> snd r \<noteq> JUndefined)"
  have f: "map (?f (JObj extended)) shape = map (?f (JObj declaredOnly)) shape"
  proof (rule map_cong [OF refl])
    fix x assume x: "x \<in> set shape"
    obtain k t where kt: "x = (k, t)" by (cases x)
    with x have "k \<in> fst ` set shape" by force
    with agree have "map_of extended k = map_of declaredOnly k" by blast
    with kt show "?f (JObj extended) x = ?f (JObj declaredOnly) x" by simp
  qed
  have P: "filter (?P extended) (map (?f (JObj declaredOnly)) shape)
         = filter (?P declaredOnly) (map (?f (JObj declaredOnly)) shape)"
  proof (rule filter_cong [OF refl])
    fix y assume "y \<in> set (map (?f (JObj declaredOnly)) shape)"
    then obtain k t where kt: "(k, t) \<in> set shape"
      and y: "y = (k, zparse t (path @ [Key k]) (getProp (JObj declaredOnly) k))" by auto
    from kt have "k \<in> fst ` set shape" by force
    with agree have "map_of extended k = map_of declaredOnly k" by blast
    then have "(k \<in> fst ` set extended) = (k \<in> fst ` set declaredOnly)"
      by (simp only: key_in_iff)
    with y show "?P extended y = ?P declaredOnly y" by simp
  qed
  show ?thesis by (simp only: zparse.simps jsval.case Let_def f P)
qed

lemma zparse_object_keys:
  "\<exists>fields. snd (zparse (ZObject shape) path (JObj kvs)) = JObj fields
     \<and> fst ` set fields \<subseteq> fst ` set shape"
  by (force simp: Let_def)

text \<open>
  C10. Take an object schema, as the schema of every tool is, and raw arguments that
  validate. Raw arguments that carry the same declared fields and any further properties
  validate as well, to the same parsed arguments; these have declared keys only; they
  are what the tool function is invoked with; and the whole run of \<open>executeTool\<close>,
  the tool function's remote call included, is the one without the further properties.
\<close>

theorem C10_unknown_keys_stripped:
  assumes agree: "\<forall>k \<in> fst ` set shape. map_of extended k = map_of declaredOnly k"
    and valid: "schema_parse (ZObject shape) (JObj declaredOnly) = Inr parsedArgs"
  shows "schema_parse (ZObject shape) (JObj extended) = Inr parsedArgs
       \<and> (\<exists>fields. parsedArgs = JObj fields \<and> fst ` set fields \<subseteq> fst ` set shape)
       \<and> invoked (executeTool slides toolName (JObj extended) (schema_parse (ZObject shape)) toolFn)
           = [parsedArgs]
       \<and> executeTool slides toolName (JObj extended) (schema_parse (ZObject shape)) toolFn
           = executeTool slides toolName (JObj declaredOnly) (schema_parse (ZObject shape)) toolFn"
proof -
  have z: "zparse (ZObject shape) [] (JObj extended) = zparse (ZObject shape) [] (JObj declaredOnly)"
    using agree by (rule zparse_object_extras)
  then have same: "schema_parse (ZObject shape) (JObj extended) = schema_parse (ZObject shape) (JObj declaredOnly)"
    by (simp only: schema_parse_def)
  with valid have ok: "schema_parse (ZObject shape) (JObj extended) = Inr parsedArgs" by simp
  from valid have "parsedArgs = snd (zparse (ZObject shape) [] (JObj declaredOnly))"
    by (auto simp add: schema_parse_def simp del: zparse.simps split: prod.splits list.splits)
  with zparse_object_keys [of shape "[]" declaredOnly]
  have keys: "\<exists>fields. parsedArgs = JObj fields \<and> fst ` set fields \<subseteq> fst ` set shape" by simp
  have inv: "invoked (executeTool slides toolName (JObj extended) (schema_parse (ZObject shape)) toolFn)
           = [parsedArgs]"
    using ok by (cases "toolFn slides parsedArgs") (simp_all add: executeTool_def executeTool_try_def)
  have run: "executeTool slides toolName (JObj extended) (schema_parse (ZObject shape)) toolFn
           = executeTool slides toolName (JObj declaredOnly) (schema_parse (ZObject shape)) toolFn"
    by (simp only: executeTool_def executeTool_try_def same jsval.distinct if_False)
  from ok keys inv run show ?thesis by (intro conjI)
qed


theorem C10_unknown_keys_stripped_witness:
  "schema_parse CreatePresentationArgsSchema (JObj [(''title'', JStr ''Deck'')])
     = Inr (JObj [(''title'', JStr ''Deck'')])
   \<and> schema_parse CreatePresentationArgsSchema
         (JObj [(''title'', JStr ''Deck''), (''owner'', JStr ''me''), (''copies'', JNum 2)])
     = Inr (JObj [(''title'', JStr ''Deck'')])
   \<and> invoked (executeTool () ''create_presentation''
         (JObj [(''title'', JStr ''Deck''), (''owner'', JStr ''me''), (''copies'', JNum 2)])
         (schema_parse CreatePresentationArgsSchema) (\<lambda>h a. Inr (success (jsString (\<lambda>n. ''0'') a))))
     = [JObj [(''title'', JStr ''Deck'')]]"
proof -
  let ?shape = "[(''title'', ZString (Some (1, ''\"title\" (string) is required.'')))]"
  let ?small = "[(''title'', JStr ''Deck'')]"
  let ?big = "[(''title'', JStr ''Deck''), (''owner'', JStr ''me''), (''copies'', JNum 2)]"
  have a: "\<forall>k \<in> fst ` set ?shape. map_of ?big k = map_of ?small k" by simp
  have v: "schema_parse (ZObject ?shape) (JObj ?small) = Inr (JObj ?small)"
    by (simp add: schema_parse_def)
  note c = C10_unknown_keys_stripped [where shape = ?shape and extended = ?big and declaredOnly = ?small
      and parsedArgs = "JObj ?small" and slides = "()" and toolName = "''create_presentation''"
      and toolFn = "\<lambda>h a. Inr (success (jsString (\<lambda>n. ''0'') a))", OF a v]
  have s: "CreatePresentationArgsSchema = ZObject ?shape"
    by (simp add: CreatePresentationArgsSchema_def)
  show ?thesis
    unfolding s
  proof (intro conjI)
    show "schema_parse (ZObject ?shape) (JObj ?small) = Inr (JObj ?small)" by (rule v)
    show "schema_parse (ZObject ?shape) (JObj ?big) = Inr (JObj ?small)" using c by (rule conjunct1)
    show "invoked (executeTool () ''create_presentation'' (JObj ?big) (schema_parse (ZObject ?shape))
            (\<lambda>h a. Inr (success (jsString (\<lambda>n. ''0'') a)))) = [JObj ?small]"
      using c by (elim conjE)
  qed
qed

section \<open>The schemas of the repository\<close>

text \<open>
  The five schemas of \<open>schemas.ts\<close> are object schemas with distinct keys whose fields
  are of the forms above. For such a schema the issues have distinct paths, each the
  path of a declared field: the entries of the \<open>Invalid arguments\<close> text are one per
  violated field.
\<close>

lemma repository_schemas:
  "\<forall>schema \<in> {CreatePresentationArgsSchema, GetPresentationArgsSchema,
       BatchUpdatePresentationArgsSchema, GetPageArgsSchema, SummarizePresentationArgsSchema}.
     \<exists>shape. schema = ZObject shape \<and> (\<forall>(k, t) \<in> set shape. leafType t) \<and> distinct (map fst shape)"
  by (simp add: CreatePresentationArgsSchema_def GetPresentationArgsSchema_def
      BatchUpdatePresentationArgsSchema_def GetPageArgsSchema_def SummarizePresentationArgsSchema_def)

lemma zparse_any_items:
  "concat (map fst (map (\<lambda>(i, x). zparse ZAny (p i) x) ixs)) = []"
  by (induction ixs) auto

lemma zparse_leaf:
  "leafType t \<Longrightarrow> fst (zparse t path v) = [] \<or> (\<exists>msg. fst (zparse t path v) = [ZodIssue path msg])"
proof (induction t arbitrary: v)
  case (ZString m)
  then show ?case by (cases v; cases m) (auto simp: invalidType_def)
next
  case ZNumber
  then show ?case by (cases v) (auto simp: invalidType_def)
next
  case ZBoolean
  then show ?case by (cases v) (auto simp: invalidType_def)
next
  case ZAny
  then show ?case by simp
next
  case (ZArray t m)
  then have t: "t = ZAny" by simp
  show ?case
  proof (cases v)
    case (JArr xs)
    have "concat (map fst (map (\<lambda>(i, x). zparse ZAny (path @ [Idx i]) x) (zip [0 ..< length xs] xs))) = []"
      by (rule zparse_any_items)
    with JArr t show ?thesis by (cases m) (auto simp: Let_def simp del: zparse.simps(4))
  qed (auto simp: invalidType_def)
next
  case (ZOptional t)
  then show ?case by simp
next
  case (ZObject shape)
  then show ?case by simp
qed

lemma zparse_flat_object:
  assumes "\<forall>(k, t) \<in> set shape. leafType t"
  shows "subseq (map issue_path (fst (zparse (ZObject shape) path (JObj kvs))))
                (map (\<lambda>(k, t). path @ [Key k]) shape)"
proof -
  have "subseq (map issue_path (concat (map (\<lambda>(k, t). fst (zparse t (path @ [Key k]) (getProp (JObj kvs) k))) sh)))
               (map (\<lambda>(k, t). path @ [Key k]) sh)"
    if "\<forall>(k, t) \<in> set sh. leafType t" for sh
    using that
  proof (induction sh)
    case Nil
    then show ?case by simp
  next
    case (Cons a sh)
    obtain k t where a: "a = (k, t)" by (cases a)
    with Cons.prems have "leafType t" by simp
    from zparse_leaf [OF this, of "path @ [Key k]" "getProp (JObj kvs) k"]
    have "subseq (map issue_path (fst (zparse t (path @ [Key k]) (getProp (JObj kvs) k)))) [path @ [Key k]]"
      by auto
    moreover from Cons have "subseq (map issue_path (concat (map (\<lambda>(k, t). fst (zparse t (path @ [Key k]) (getProp (JObj kvs) k))) sh)))
               (map (\<lambda>(k, t). path @ [Key k]) sh)" by simp
    ultimately have "subseq (map issue_path (fst (zparse t (path @ [Key k]) (getProp (JObj kvs) k)))
                       @ map issue_path (concat (map (\<lambda>(k, t). fst (zparse t (path @ [Key k]) (getProp (JObj kvs) k))) sh)))
                      ([path @ [Key k]] @ map (\<lambda>(k, t). path @ [Key k]) sh)"
      by (rule list_emb_append_mono)
    with a show ?case by simp
  qed
  from this [OF assms] show ?thesis
    by (simp add: Let_def comp_def case_prod_unfold)
qed

lemma one_issue_per_field:
  assumes "\<forall>(k, t) \<in> set shape. leafType t" and "distinct (map fst shape)"
  shows "distinct (map issue_path (fst (zparse (ZObject shape) path (JObj kvs))))"
proof -
  have "inj_on (\<lambda>k. path @ [Key k]) (set (map fst shape))" by (simp add: inj_on_def)
  with assms(2) have "distinct (map (\<lambda>k. path @ [Key k]) (map fst shape))"
    by (simp only: distinct_map)
  then have "distinct (map (\<lambda>(k, t). path @ [Key k]) shape)"
    by (simp add: comp_def case_prod_unfold)
  moreover from zparse_flat_object [OF assms(1), of path kvs]
  obtain N where "map issue_path (fst (zparse (ZObject shape) path (JObj kvs)))
                    = nths (map (\<lambda>(k, t). path @ [Key k]) shape) N"
    unfolding subseq_conv_nths by (elim exE)
  ultimately show ?thesis by (simp only: distinct_nthsI)
qed


end
